theory Spec2Isabelle
  imports Main
begin

section \<open>Terminal session multiplexer: PtyManager and the socket gateway\<close>

text \<open>
  A shallow embedding of \<^verbatim>\<open>backend/src/modules/terminal/pty-manager.ts\<close>,
  \<^verbatim>\<open>backend/src/modules/terminal/terminal.gateway.ts\<close> and of
  \<^verbatim>\<open>SessionService.getUserRole\<close>.

  JavaScript strings are lists of UTF-16 code units; \<open>length\<close> and \<open>slice\<close> count code
  units. They are modelled as \<^typ>\<open>string\<close>, one list element per code unit.
  Socket ids are natural numbers. The server is single threaded: every handler below runs
  to completion, and the call of an event emitter's listeners is an ordinary nested call.
\<close>

subsection \<open>Data\<close>

text \<open>The Prisma enum \<^verbatim>\<open>SessionRole\<close> (a member's role in one session) and the
  global role of a user account.\<close>

datatype SessionRole = OWNER | OPERATOR | VIEWER

datatype UserRole = ADMIN | USER_VIEWER

text \<open>What a \<^verbatim>\<open>throw\<close> carries: \<^verbatim>\<open>new Error(message)\<close>, a failure raised inside
  an external collaborator (Prisma, node-pty), or the \<^verbatim>\<open>TypeError\<close> of destructuring
  \<^verbatim>\<open>undefined\<close> or \<^verbatim>\<open>null\<close>.\<close>

datatype exn = Error string | External | TypeError

text \<open>Events the server sends to a client socket.\<close>

datatype server_event =
    ErrorEv string
  | SessionOutput string
  | SessionJoined string SessionRole
  | SessionExit int

text \<open>The pseudo-terminal behind \<^verbatim>\<open>IPty\<close>. The field \<open>mock\<close> tells a
  \<^verbatim>\<open>MockPty\<close> from a node-pty process; \<open>written\<close> and \<open>resized\<close> log the calls of
  \<^verbatim>\<open>write\<close> and \<^verbatim>\<open>resize\<close> the terminal has received.\<close>

record IPty =
  mock :: bool
  written :: "string list"
  resized :: "(int \<times> int) list"

record PtySession =
  id' :: string
  pty :: IPty
  outputBuffer :: string

text \<open>\<^verbatim>\<open>PtyManager.sessions\<close> maps a session id to a \<^verbatim>\<open>PtySession\<close> object. The
  \<^verbatim>\<open>onData\<close> and \<^verbatim>\<open>onExit\<close> closures registered by \<^verbatim>\<open>spawn\<close> keep a reference to
  the object they were created with, also after the map has dropped it. So the objects
  live in a store \<open>objs\<close>, addressed by their index (the n-th call of \<^verbatim>\<open>spawn\<close> that
  got through creates object n), and the map holds addresses.\<close>

record PtyManager =
  sessions :: "string \<rightharpoonup> nat"
  objs :: "PtySession list"

text \<open>The two tables the gateway depends on: the global role of each user account, and
  the \<^verbatim>\<open>SessionMember\<close> rows under their unique key \<^verbatim>\<open>userId_sessionId\<close>.\<close>

record database =
  user :: "string \<rightharpoonup> UserRole"
  sessionMember :: "string \<times> string \<rightharpoonup> SessionRole"

text \<open>\<^verbatim>\<open>AuthenticatedSocket\<close>, with the socket.io rooms the socket is in and the events
  emitted to it so far.\<close>

record Socket =
  userId :: string
  sessionId :: "string option"
  sessionRole :: "SessionRole option"
  rooms :: "string set"
  outbox :: "server_event list"

text \<open>The state of the server. \<open>emitted\<close> logs the \<^verbatim>\<open>output\<close> events the manager has
  emitted so far, each with its session id and its data, in order.\<close>

record world =
  prisma :: database
  ptyAvailable :: bool
  ptyManager :: PtyManager
  io :: "nat \<rightharpoonup> Socket"
  emitted :: "(string \<times> string) list"

text \<open>What the external collaborators do during one handler: whether the Prisma query
  rejects, and whether node-pty throws from \<^verbatim>\<open>spawn\<close>, \<^verbatim>\<open>write\<close> or \<^verbatim>\<open>resize\<close>.\<close>

record env =
  prisma_throws :: bool
  nodePtySpawn_throws :: bool
  pty_write_throws :: bool
  pty_resize_throws :: bool

subsection \<open>JavaScript helpers\<close>

definition MAX_BUFFER_SIZE :: nat where
  "MAX_BUFFER_SIZE = 10000"

text \<open>\<^verbatim>\<open>s.slice(-n)\<close> for \<open>n > 0\<close>: the start index is \<open>max (length s - n) 0\<close>, which
  is what the truncating subtraction of \<^typ>\<open>nat\<close> computes.\<close>

definition slice_neg :: "nat \<Rightarrow> string \<Rightarrow> string" where
  "slice_neg n s = drop (length s - n) s"

text \<open>A string is truthy unless it is empty.\<close>

definition truthy :: "string \<Rightarrow> bool" where
  "truthy s = (s \<noteq> [])"

definition room :: "string \<Rightarrow> string" where
  "room sid = ''session:'' @ sid"

subsection \<open>SessionService\<close>

definition getUserRole :: "env \<Rightarrow> database \<Rightarrow> string \<Rightarrow> string \<Rightarrow> exn + SessionRole option" where
  "getUserRole e db sid uid =
     (if prisma_throws e then Inl External else Inr (sessionMember db (uid, sid)))"

text \<open>What the gateway makes of the answer of \<^verbatim>\<open>getUserRole\<close>: \<^verbatim>\<open>session:join\<close>
  refuses \<^verbatim>\<open>null\<close> (its test \<^verbatim>\<open>!role\<close>), \<^verbatim>\<open>session:input\<close> refuses the role
  VIEWER (its test \<^verbatim>\<open>socket.sessionRole === 'VIEWER'\<close>), and every other role may write.
  Neither handler reads the global role of the user.\<close>

datatype permission = NoAccess | OBSERVE | DRIVE

definition effective :: "SessionRole option \<Rightarrow> permission" where
  "effective r = (case r of None \<Rightarrow> NoAccess | Some role \<Rightarrow> if role = VIEWER then OBSERVE else DRIVE)"

definition resolveRole :: "database \<Rightarrow> string \<Rightarrow> string \<Rightarrow> permission" where
  "resolveRole db sid uid = effective (sessionMember db (uid, sid))"

subsection \<open>Emitting to sockets\<close>

definition push :: "server_event \<Rightarrow> Socket \<Rightarrow> Socket" where
  "push ev s = s\<lparr>outbox := outbox s @ [ev]\<rparr>"

text \<open>\<^verbatim>\<open>socket.emit(...)\<close> on socket \<open>c\<close>.\<close>

definition socket_emit :: "nat \<Rightarrow> server_event \<Rightarrow> world \<Rightarrow> world" where
  "socket_emit c ev w =
     w\<lparr>io := (\<lambda>k. if k = c then map_option (push ev) (io w k) else io w k)\<rparr>"

text \<open>\<^verbatim>\<open>io.to(r).emit(...)\<close>: every connected socket that is in room \<open>r\<close>.\<close>

definition io_to_emit :: "string \<Rightarrow> server_event \<Rightarrow> world \<Rightarrow> world" where
  "io_to_emit r ev w =
     w\<lparr>io := (\<lambda>k. map_option (\<lambda>s. if r \<in> rooms s then push ev s else s) (io w k))\<rparr>"

text \<open>The gateway's listeners on the manager's \<^verbatim>\<open>output\<close> and \<^verbatim>\<open>exit\<close> events. Their
  calls of \<^verbatim>\<open>sessionService.updateOutputBuffer\<close> and \<^verbatim>\<open>updateStatus\<close> are fire and
  forget, with every failure swallowed, and write only to the \<^verbatim>\<open>Session\<close> table, which
  nothing here reads.\<close>

definition on_output :: "string \<Rightarrow> string \<Rightarrow> world \<Rightarrow> world" where
  "on_output sid data w = io_to_emit (room sid) (SessionOutput data) w"

definition on_exit :: "string \<Rightarrow> int \<Rightarrow> world \<Rightarrow> world" where
  "on_exit sid exitCode w = io_to_emit (room sid) (SessionExit exitCode) w"

subsection \<open>PtyManager\<close>

text \<open>\<^verbatim>\<open>PtyManager.kill\<close>, \<^verbatim>\<open>isPtyAvailable\<close> and \<^verbatim>\<open>getActiveSessionIds\<close> are
  not called by the gateway and are left out.\<close>

text \<open>The buffer update of the \<^verbatim>\<open>onData\<close> closure.\<close>

definition append_buffer :: "string \<Rightarrow> string \<Rightarrow> string" where
  "append_buffer buf data =
     (let b = buf @ data
      in if length b > MAX_BUFFER_SIZE then slice_neg MAX_BUFFER_SIZE b else b)"

text \<open>The \<^verbatim>\<open>onData\<close> closure of the session object at address \<open>a\<close>: it updates that
  object's buffer and emits \<^verbatim>\<open>output\<close>, which runs the gateway's listener. No process
  has an address outside the store.\<close>

definition pty_onData :: "nat \<Rightarrow> string \<Rightarrow> world \<Rightarrow> world" where
  "pty_onData a data w =
     (let m = ptyManager w
      in if a < length (objs m) then
           let session = objs m ! a;
               session' = session\<lparr>outputBuffer := append_buffer (outputBuffer session) data\<rparr>
           in on_output (id' session) data
                (w\<lparr>ptyManager := m\<lparr>objs := (objs m)[a := session']\<rparr>,
                   emitted := emitted w @ [(id' session, data)]\<rparr>)
         else w)"

text \<open>The \<^verbatim>\<open>onExit\<close> closure: emit \<^verbatim>\<open>exit\<close>, then delete the map entry of the
  closure's session id.\<close>

definition pty_onExit :: "nat \<Rightarrow> int \<Rightarrow> world \<Rightarrow> world" where
  "pty_onExit a exitCode w =
     (let m = ptyManager w
      in if a < length (objs m) then
           let sid = id' (objs m ! a);
               w' = on_exit sid exitCode w
           in w'\<lparr>ptyManager := (ptyManager w')\<lparr>sessions := (sessions (ptyManager w'))(sid := None)\<rparr>\<rparr>
         else w)"

text \<open>\<^verbatim>\<open>PtyManager.spawn\<close>. \<open>avail\<close> is \<^verbatim>\<open>nodePtySpawn && ptyAvailable\<close>; the
  constructor of \<^verbatim>\<open>MockPty\<close> does not throw. A throw leaves the manager as it was.\<close>

definition new_session :: "bool \<Rightarrow> string \<Rightarrow> PtySession" where
  "new_session avail sid =
     \<lparr>id' = sid, pty = \<lparr>mock = \<not> avail, written = [], resized = []\<rparr>, outputBuffer = ''''\<rparr>"

definition PtyManager_spawn :: "env \<Rightarrow> bool \<Rightarrow> PtyManager \<Rightarrow> string \<Rightarrow> exn + PtyManager" where
  "PtyManager_spawn e avail m sid =
     (if sessions m sid \<noteq> None then Inl (Error ''Session already exists'')
      else if avail \<and> nodePtySpawn_throws e then Inl External
      else
        let session = new_session avail sid
        in Inr (m\<lparr>objs := objs m @ [session],
                  sessions := (sessions m)(sid \<mapsto> length (objs m))\<rparr>))"

text \<open>\<^verbatim>\<open>session.pty.write(data)\<close> on the object at \<open>a\<close>. A \<^verbatim>\<open>MockPty\<close> echoes the
  data to its data listeners at once (its later canned answer comes from a timer, as a
  data event of its own).\<close>

definition log_write :: "nat \<Rightarrow> string \<Rightarrow> world \<Rightarrow> world" where
  "log_write a data w =
     (let m = ptyManager w; s = objs m ! a
      in w\<lparr>ptyManager := m\<lparr>objs := (objs m)[a := s\<lparr>pty := (pty s)\<lparr>written := written (pty s) @ [data]\<rparr>\<rparr>]\<rparr>\<rparr>)"

definition IPty_write :: "env \<Rightarrow> nat \<Rightarrow> string \<Rightarrow> world \<Rightarrow> exn + world" where
  "IPty_write e a data w =
     (if mock (pty (objs (ptyManager w) ! a)) then Inr (pty_onData a data (log_write a data w))
      else if pty_write_throws e then Inl External
      else Inr (log_write a data w))"

definition PtyManager_write :: "env \<Rightarrow> string \<Rightarrow> string \<Rightarrow> world \<Rightarrow> exn + world" where
  "PtyManager_write e sid data w =
     (case sessions (ptyManager w) sid of
        None \<Rightarrow> Inl (Error ''Session not found'')
      | Some a \<Rightarrow> IPty_write e a data w)"

definition PtyManager_resize :: "env \<Rightarrow> string \<Rightarrow> int \<Rightarrow> int \<Rightarrow> PtyManager \<Rightarrow> exn + PtyManager" where
  "PtyManager_resize e sid cols rows m =
     (case sessions m sid of
        None \<Rightarrow> Inl (Error ''Session not found'')
      | Some a \<Rightarrow>
          let s = objs m ! a
          in if \<not> mock (pty s) \<and> pty_resize_throws e then Inl External
             else Inr (m\<lparr>objs := (objs m)[a := s\<lparr>pty := (pty s)\<lparr>resized := resized (pty s) @ [(cols, rows)]\<rparr>\<rparr>]\<rparr>))"

definition getBuffer :: "PtyManager \<Rightarrow> string \<Rightarrow> string" where
  "getBuffer m sid = (case sessions m sid of None \<Rightarrow> '''' | Some a \<Rightarrow> outputBuffer (objs m ! a))"

definition exists :: "PtyManager \<Rightarrow> string \<Rightarrow> bool" where
  "exists m sid = (sessions m sid \<noteq> None)"

subsection \<open>The gateway's handlers\<close>

text \<open>The connection middleware: \<open>decoded\<close> is the user id in the verified token, if
  there is a token and it verifies. The socket is created when that user exists.\<close>

definition io_connection :: "nat \<Rightarrow> string option \<Rightarrow> world \<Rightarrow> world" where
  "io_connection c decoded w =
     (case decoded of
        None \<Rightarrow> w
      | Some uid \<Rightarrow>
          if io w c \<noteq> None \<or> user (prisma w) uid = None then w
          else w\<lparr>io := (io w)(c \<mapsto> \<lparr>userId = uid, sessionId = None, sessionRole = None,
                                     rooms = {}, outbox = []\<rparr>)\<rparr>)"

text \<open>\<^verbatim>\<open>session:join\<close>. The handler reads nothing before its only \<^verbatim>\<open>await\<close>, so it
  is one step, taken when the role query returns.\<close>

definition session_join :: "env \<Rightarrow> nat \<Rightarrow> string \<Rightarrow> world \<Rightarrow> world" where
  "session_join e c sid w =
     (case io w c of
        None \<Rightarrow> w
      | Some socket \<Rightarrow>
          (case getUserRole e (prisma w) sid (userId socket) of
             Inl err \<Rightarrow> socket_emit c (ErrorEv ''Failed to join session'') w
           | Inr None \<Rightarrow> socket_emit c (ErrorEv ''Access denied'') w
           | Inr (Some role) \<Rightarrow>
               let w1 = w\<lparr>io := (io w)(c \<mapsto> socket\<lparr>sessionId := Some sid,
                                                    sessionRole := Some role,
                                                    rooms := insert (room sid) (rooms socket)\<rparr>)\<rparr>;
                   buffer = getBuffer (ptyManager w1) sid;
                   w2 = (if truthy buffer then socket_emit c (SessionOutput buffer) w1 else w1)
               in if \<not> exists (ptyManager w2) sid then
                    (case PtyManager_spawn e (ptyAvailable w2) (ptyManager w2) sid of
                       Inl err \<Rightarrow> socket_emit c (ErrorEv ''Failed to join session'') w2
                     | Inr m' \<Rightarrow> socket_emit c (SessionJoined sid role) (w2\<lparr>ptyManager := m'\<rparr>))
                  else socket_emit c (SessionJoined sid role) w2))"

text \<open>\<^verbatim>\<open>session:input\<close>. \<^verbatim>\<open>!socket.sessionId\<close> holds for \<^verbatim>\<open>undefined\<close> and for the
  empty string.\<close>

definition attached_to :: "Socket \<Rightarrow> string option" where
  "attached_to socket =
     (case sessionId socket of None \<Rightarrow> None | Some sid \<Rightarrow> if truthy sid then Some sid else None)"

definition session_input :: "env \<Rightarrow> nat \<Rightarrow> string \<Rightarrow> world \<Rightarrow> world" where
  "session_input e c data w =
     (case io w c of
        None \<Rightarrow> w
      | Some socket \<Rightarrow>
          (case attached_to socket of
             None \<Rightarrow> socket_emit c (ErrorEv ''Not in a session'') w
           | Some sid \<Rightarrow>
               if sessionRole socket = Some VIEWER
               then socket_emit c (ErrorEv ''Viewers cannot send input'') w
               else (case PtyManager_write e sid data w of
                       Inl err \<Rightarrow> socket_emit c (ErrorEv ''Failed to send input'') w
                     | Inr w' \<Rightarrow> w')))"

text \<open>\<^verbatim>\<open>session:resize\<close>. The handler destructures its argument in its parameter list,
  \<^verbatim>\<open>({ cols, rows }) => ...\<close>, before the test of \<^verbatim>\<open>socket.sessionId\<close> and outside the
  \<^verbatim>\<open>try\<close>. The payload \<open>None\<close> is \<^verbatim>\<open>undefined\<close> or \<^verbatim>\<open>null\<close> (an event sent with no
  argument): destructuring it throws a \<^verbatim>\<open>TypeError\<close> that nothing catches. \<open>Some (cols,
  rows)\<close> is an object with these two fields, numbers as the parameter's type says. Errors
  of the manager are ignored.\<close>

definition session_resize :: "env \<Rightarrow> nat \<Rightarrow> (int \<times> int) option \<Rightarrow> world \<Rightarrow> exn + world" where
  "session_resize e c payload w =
     (case io w c of
        None \<Rightarrow> Inr w
      | Some socket \<Rightarrow>
          (case payload of
             None \<Rightarrow> Inl TypeError
           | Some (cols, rows) \<Rightarrow>
               (case attached_to socket of
                  None \<Rightarrow> Inr w
                | Some sid \<Rightarrow>
                    (case PtyManager_resize e sid cols rows (ptyManager w) of
                       Inl err \<Rightarrow> Inr w
                     | Inr m' \<Rightarrow> Inr (w\<lparr>ptyManager := m'\<rparr>)))))"

text \<open>\<^verbatim>\<open>session:leave\<close>.\<close>

definition session_leave :: "nat \<Rightarrow> world \<Rightarrow> world" where
  "session_leave c w =
     (case io w c of
        None \<Rightarrow> w
      | Some socket \<Rightarrow>
          (case attached_to socket of
             None \<Rightarrow> w
           | Some sid \<Rightarrow>
               w\<lparr>io := (io w)(c \<mapsto> socket\<lparr>rooms := rooms socket - {room sid},
                                           sessionId := None,
                                           sessionRole := None\<rparr>)\<rparr>))"

text \<open>\<^verbatim>\<open>disconnect\<close>: the handler only logs; socket.io drops the socket, and with it
  its room memberships.\<close>

definition disconnect :: "nat \<Rightarrow> world \<Rightarrow> world" where
  "disconnect c w = w\<lparr>io := (io w)(c := None)\<rparr>"

subsection \<open>Runs\<close>

datatype event =
    Connection nat "string option"
  | Join nat string
  | Input nat string
  | Resize nat "(int \<times> int) option"
  | Leave nat
  | Disconnect nat
  | PtyData nat string
  | PtyExit nat int

text \<open>One event. \<open>Inl\<close> is an exception that leaves its handler uncaught; only the
  handler of \<^verbatim>\<open>session:resize\<close> can throw one.\<close>

fun step :: "env \<Rightarrow> event \<Rightarrow> world \<Rightarrow> exn + world" where
  "step e (Connection c decoded) w = Inr (io_connection c decoded w)"
| "step e (Join c sid) w = Inr (session_join e c sid w)"
| "step e (Input c data) w = Inr (session_input e c data w)"
| "step e (Resize c payload) w = session_resize e c payload w"
| "step e (Leave c) w = Inr (session_leave c w)"
| "step e (Disconnect c) w = Inr (disconnect c w)"
| "step e (PtyData a data) w = Inr (pty_onData a data w)"
| "step e (PtyExit a exitCode) w = Inr (pty_onExit a exitCode w)"

text \<open>The repository installs no handler for uncaught exceptions, so the first one ends
  the Node process: a run stops there, and its result is the last world the server
  reached.\<close>

fun run :: "(env \<times> event) list \<Rightarrow> world \<Rightarrow> world" where
  "run [] w = w"
| "run ((e, ev) # evs) w = (case step e ev w of Inl x \<Rightarrow> w | Inr w' \<Rightarrow> run evs w')"

text \<open>The server as it starts: no socket, no session.\<close>

definition init :: "database \<Rightarrow> bool \<Rightarrow> world" where
  "init db avail = \<lparr>prisma = db, ptyAvailable = avail,
                    ptyManager = \<lparr>sessions = Map.empty, objs = []\<rparr>, io = Map.empty,
                    emitted = []\<rparr>"

definition calm :: env where
  "calm = \<lparr>prisma_throws = False, nodePtySpawn_throws = False,
           pty_write_throws = False, pty_resize_throws = False\<rparr>"

text \<open>The process at address \<open>a\<close> emits the data \<open>ds\<close>, one event each.\<close>

definition data_events :: "env \<Rightarrow> nat \<Rightarrow> string list \<Rightarrow> (env \<times> event) list" where
  "data_events e a ds = map (\<lambda>d. (e, PtyData a d)) ds"

text \<open>The data of the output events in a socket's outbox, in order.\<close>

fun output_data :: "server_event \<Rightarrow> string list" where
  "output_data (SessionOutput d) = [d]"
| "output_data (ErrorEv msg) = []"
| "output_data (SessionJoined sid role) = []"
| "output_data (SessionExit exitCode) = []"

definition outputs_of :: "server_event list \<Rightarrow> string list" where
  "outputs_of evs = concat (map output_data evs)"

text \<open>The data of the entries of the manager's log that belong to session \<open>sid\<close>, in
  order.\<close>

definition produced :: "string \<Rightarrow> (string \<times> string) list \<Rightarrow> string list" where
  "produced sid log = map snd (filter (\<lambda>p. fst p = sid) log)"

text \<open>Events that are not a join, a leave or the disconnect of socket \<open>c\<close>.\<close>

fun stays :: "nat \<Rightarrow> event \<Rightarrow> bool" where
  "stays c (Join k sid) = (k \<noteq> c)"
| "stays c (Leave k) = (k \<noteq> c)"
| "stays c (Disconnect k) = (k \<noteq> c)"
| "stays c (Connection k decoded) = True"
| "stays c (Input k data) = True"
| "stays c (Resize k payload) = True"
| "stays c (PtyData a data) = True"
| "stays c (PtyExit a exitCode) = True"

text \<open>What a socket is subscribed to and what output it has been sent: its rooms, and the
  data of the output events in its outbox.\<close>

definition view :: "nat \<Rightarrow> world \<Rightarrow> (string set \<times> string list) option" where
  "view c w = map_option (\<lambda>s. (rooms s, outputs_of (outbox s))) (io w c)"

text \<open>Every address in the map is an object of the store that carries the map's key.\<close>

definition wf_manager :: "PtyManager \<Rightarrow> bool" where
  "wf_manager m = (\<forall>sid a. sessions m sid = Some a \<longrightarrow> a < length (objs m) \<and> id' (objs m ! a) = sid)"

subsection \<open>Scenarios\<close>

text \<open>A database with three accounts. Alice owns session A and operates session B, Bob is
  a viewer of session A, and root is an administrator who is a member of no session.\<close>

definition db0 :: database where
  "db0 = \<lparr>user = [''alice'' \<mapsto> USER_VIEWER, ''bob'' \<mapsto> USER_VIEWER, ''root'' \<mapsto> ADMIN],
          sessionMember = [(''alice'', ''A'') \<mapsto> OWNER, (''alice'', ''B'') \<mapsto> OPERATOR,
                           (''bob'', ''A'') \<mapsto> VIEWER]\<rparr>"

text \<open>A manager that tracks one node-pty session, A.\<close>

definition m_A :: PtyManager where
  "m_A = \<lparr>sessions = [''A'' \<mapsto> 0], objs = [new_session True ''A'']\<rparr>"

text \<open>A socket of Alice's, unattached, and one attached to A with role \<open>r\<close>.\<close>

definition sock0 :: Socket where
  "sock0 = \<lparr>userId = ''alice'', sessionId = None, sessionRole = None, rooms = {}, outbox = []\<rparr>"

definition sock_A :: "string \<Rightarrow> SessionRole \<Rightarrow> Socket" where
  "sock_A uid r = \<lparr>userId = uid, sessionId = Some ''A'', sessionRole = Some r,
                   rooms = {room ''A''}, outbox = []\<rparr>"

definition w_of :: "PtyManager \<Rightarrow> Socket \<Rightarrow> world" where
  "w_of m s = \<lparr>prisma = db0, ptyAvailable = True, ptyManager = m, io = [0 \<mapsto> s],
              emitted = []\<rparr>"

definition m_empty :: PtyManager where
  "m_empty = \<lparr>sessions = Map.empty, objs = []\<rparr>"

text \<open>Alice and Bob have both joined session A, whose process has said nothing yet.\<close>

definition w_AB :: world where
  "w_AB = run [(calm, Connection 0 (Some ''alice'')), (calm, Join 0 ''A''),
               (calm, Connection 1 (Some ''bob'')), (calm, Join 1 ''A'')] (init db0 True)"

text \<open>Alice joins session A, nobody having joined it before.\<close>

definition w_first :: world where
  "w_first = run [(calm, Connection 0 (Some ''alice'')), (calm, Join 0 ''A'')] (init db0 True)"

text \<open>Alice has joined session A, its process has printed \<open>hello\<close>, and Bob has
  connected but not joined yet.\<close>

definition w_hello :: world where
  "w_hello = run [(calm, Connection 0 (Some ''alice'')), (calm, Join 0 ''A''),
                  (calm, PtyData 0 ''hello''), (calm, Connection 1 (Some ''bob''))] (init db0 True)"

definition sock_bob :: Socket where
  "sock_bob = \<lparr>userId = ''bob'', sessionId = None, sessionRole = None, rooms = {}, outbox = []\<rparr>"

definition sock_root :: Socket where
  "sock_root = \<lparr>userId = ''root'', sessionId = None, sessionRole = None, rooms = {}, outbox = []\<rparr>"

text \<open>The administrator asks to join session A.\<close>

definition w_root :: world where
  "w_root = run [(calm, Connection 0 (Some ''root'')), (calm, Join 0 ''A'')] (init db0 True)"

text \<open>Alice joins session A and then, on the same socket, session B; after that the
  process of session A (object 0 of the store) prints \<open>x\<close>.\<close>

definition w_switch :: world where
  "w_switch = run [(calm, Connection 0 (Some ''alice'')), (calm, Join 0 ''A''), (calm, Join 0 ''B''),
                   (calm, PtyData 0 ''x'')] (init db0 True)"

text \<open>A socket that has recorded a session is in that session's room.\<close>

definition attached_in_room :: "world \<Rightarrow> bool" where
  "attached_in_room w = (\<forall>c s sid. io w c = Some s \<and> sessionId s = Some sid \<longrightarrow> room sid \<in> rooms s)"

section \<open>Properties\<close>

subsection \<open>Basic facts\<close>

lemma io_socket_emit:
  "io (socket_emit c ev w) k = (if k = c then map_option (push ev) (io w k) else io w k)"
  by (simp add: socket_emit_def)

lemma ptyManager_socket_emit [simp]: "ptyManager (socket_emit c ev w) = ptyManager w"
  by (simp add: socket_emit_def)

lemma io_io_to_emit:
  "io (io_to_emit r ev w) k = map_option (\<lambda>s. if r \<in> rooms s then push ev s else s) (io w k)"
  by (simp add: io_to_emit_def)

lemma ptyManager_io_to_emit [simp]: "ptyManager (io_to_emit r ev w) = ptyManager w"
  by (simp add: io_to_emit_def)

lemma length_append_buffer: "length (append_buffer buf data) \<le> MAX_BUFFER_SIZE"
  by (simp add: append_buffer_def slice_neg_def Let_def del: drop_append)

lemma append_buffer_eq:
  "append_buffer buf data = drop (length (buf @ data) - MAX_BUFFER_SIZE) (buf @ data)"
  by (simp add: append_buffer_def slice_neg_def Let_def del: drop_append)

subsection \<open>The manager's map stays well formed\<close>

lemma wf_managerD:
  "wf_manager m \<Longrightarrow> sessions m sid = Some a \<Longrightarrow> a < length (objs m) \<and> id' (objs m ! a) = sid"
  by (simp add: wf_manager_def)

lemma spawn_InrD:
  "PtyManager_spawn e avail m sid = Inr m' \<Longrightarrow>
     sessions m sid = None \<and>
     m' = m\<lparr>objs := objs m @ [new_session avail sid],
               sessions := (sessions m)(sid \<mapsto> length (objs m))\<rparr>"
  by (simp add: PtyManager_spawn_def Let_def split: if_splits)

lemma wf_spawn:
  assumes wf: "wf_manager m" and sp: "PtyManager_spawn e avail m sid = Inr m'"
  shows "wf_manager m'"
proof -
  from sp have m': "m' = m\<lparr>objs := objs m @ [new_session avail sid],
               sessions := (sessions m)(sid \<mapsto> length (objs m))\<rparr>"
    by (simp add: spawn_InrD)
  show ?thesis
    unfolding wf_manager_def
  proof (intro allI impI)
    fix k a assume ka: "sessions m' k = Some a"
    show "a < length (objs m') \<and> id' (objs m' ! a) = k"
    proof (cases "k = sid")
      case True
      with ka m' show ?thesis by (auto simp: new_session_def nth_append)
    next
      case False
      with ka m' have "sessions m k = Some a" by simp
      with wf have "a < length (objs m) \<and> id' (objs m ! a) = k" by (rule wf_managerD)
      with m' show ?thesis by (simp add: nth_append)
    qed
  qed
qed

lemma wf_update:
  assumes wf: "wf_manager m" and same: "id' s' = id' (objs m ! a)"
  shows "wf_manager (m\<lparr>objs := (objs m)[a := s']\<rparr>)"
  unfolding wf_manager_def
proof (intro allI impI)
  fix k b assume "sessions (m\<lparr>objs := (objs m)[a := s']\<rparr>) k = Some b"
  then have "sessions m k = Some b" by simp
  with wf have b: "b < length (objs m) \<and> id' (objs m ! b) = k" by (rule wf_managerD)
  with same show "b < length (objs (m\<lparr>objs := (objs m)[a := s']\<rparr>)) \<and>
        id' (objs (m\<lparr>objs := (objs m)[a := s']\<rparr>) ! b) = k"
    by (cases "b = a") simp_all
qed

lemma wf_delete:
  "wf_manager m \<Longrightarrow> wf_manager (m\<lparr>sessions := (sessions m)(sid := None)\<rparr>)"
  by (simp add: wf_manager_def)

lemma ptyManager_pty_onData:
  "ptyManager (pty_onData a data w) =
     (if a < length (objs (ptyManager w))
      then (ptyManager w)\<lparr>objs := (objs (ptyManager w))
              [a := (objs (ptyManager w) ! a)\<lparr>outputBuffer :=
                       append_buffer (outputBuffer (objs (ptyManager w) ! a)) data\<rparr>]\<rparr>
      else ptyManager w)"
  by (simp add: pty_onData_def Let_def on_output_def)

lemma wf_pty_onData: "wf_manager (ptyManager w) \<Longrightarrow> wf_manager (ptyManager (pty_onData a data w))"
  by (simp add: ptyManager_pty_onData wf_update)

lemma ptyManager_pty_onExit:
  "ptyManager (pty_onExit a code w) =
     (if a < length (objs (ptyManager w))
      then (ptyManager w)\<lparr>sessions := (sessions (ptyManager w))(id' (objs (ptyManager w) ! a) := None)\<rparr>
      else ptyManager w)"
  by (simp add: pty_onExit_def Let_def on_exit_def)

lemma wf_pty_onExit: "wf_manager (ptyManager w) \<Longrightarrow> wf_manager (ptyManager (pty_onExit a code w))"
  by (simp add: ptyManager_pty_onExit wf_delete)

lemma ptyManager_log_write:
  "ptyManager (log_write a data w) =
     (ptyManager w)\<lparr>objs := (objs (ptyManager w))
        [a := (objs (ptyManager w) ! a)\<lparr>pty := (pty (objs (ptyManager w) ! a))
                 \<lparr>written := written (pty (objs (ptyManager w) ! a)) @ [data]\<rparr>\<rparr>]\<rparr>"
  by (simp add: log_write_def Let_def)

lemma wf_log_write: "wf_manager (ptyManager w) \<Longrightarrow> wf_manager (ptyManager (log_write a data w))"
  by (simp add: ptyManager_log_write wf_update)

lemma wf_write:
  "wf_manager (ptyManager w) \<Longrightarrow> PtyManager_write e sid data w = Inr w' \<Longrightarrow> wf_manager (ptyManager w')"
  by (auto simp: PtyManager_write_def IPty_write_def wf_log_write wf_pty_onData
           split: option.splits if_splits)

lemma wf_resize:
  "wf_manager m \<Longrightarrow> PtyManager_resize e sid cols rows m = Inr m' \<Longrightarrow> wf_manager m'"
  by (auto simp: PtyManager_resize_def Let_def wf_update split: option.splits if_splits)

lemma wf_session_join:
  "wf_manager (ptyManager w) \<Longrightarrow> wf_manager (ptyManager (session_join e c sid w))"
  by (auto simp: session_join_def Let_def wf_spawn split: option.splits sum.splits)

lemma wf_session_input:
  "wf_manager (ptyManager w) \<Longrightarrow> wf_manager (ptyManager (session_input e c data w))"
  by (auto simp: session_input_def wf_write split: option.splits sum.splits)

lemma wf_session_resize:
  "wf_manager (ptyManager w) \<Longrightarrow> session_resize e c payload w = Inr w' \<Longrightarrow>
     wf_manager (ptyManager w')"
  by (auto simp: session_resize_def wf_resize split: option.splits sum.splits)

lemma wf_step:
  "wf_manager (ptyManager w) \<Longrightarrow> step e ev w = Inr w' \<Longrightarrow> wf_manager (ptyManager w')"
  by (cases ev)
     (auto simp: wf_session_join wf_session_input wf_pty_onData wf_pty_onExit
        io_connection_def session_leave_def disconnect_def
        split: option.splits intro: wf_session_resize)

lemma wf_run: "wf_manager (ptyManager w) \<Longrightarrow> wf_manager (ptyManager (run evs w))"
proof (induction evs arbitrary: w)
  case Nil
  then show ?case by simp
next
  case (Cons x evs)
  obtain e ev where x: "x = (e, ev)" by (cases x)
  show ?case
  proof (cases "step e ev w")
    case (Inl err)
    with Cons.prems x show ?thesis by simp
  next
    case (Inr w')
    with Cons.prems have "wf_manager (ptyManager w')" by (simp add: wf_step)
    then have "wf_manager (ptyManager (run evs w'))" by (rule Cons.IH)
    with Inr x show ?thesis by simp
  qed
qed

lemma wf_reachable: "wf_manager (ptyManager (run evs (init db avail)))"
  by (rule wf_run) (simp add: init_def wf_manager_def)

subsection \<open>The replay buffer keeps a suffix\<close>

lemma append_buffer_slice: "append_buffer buf data = slice_neg MAX_BUFFER_SIZE (buf @ data)"
  by (simp add: append_buffer_def slice_neg_def Let_def)

lemma slice_neg_slice_neg_append:
  "slice_neg n (slice_neg n y @ d) = slice_neg n (y @ d)"
proof (cases "length y \<le> n")
  case True
  then show ?thesis by (simp add: slice_neg_def)
next
  case False
  then have "slice_neg n y @ d = drop (length y - n) (y @ d)"
    by (simp add: slice_neg_def)
  moreover from False have "length (slice_neg n y @ d) - n + (length y - n) = length (y @ d) - n"
    by (simp add: slice_neg_def)
  ultimately show ?thesis
    by (simp add: slice_neg_def del: drop_append length_append)
qed

lemma append_buffer_append_buffer:
  "append_buffer (append_buffer buf d1) d2 = append_buffer buf (d1 @ d2)"
  by (simp add: append_buffer_slice slice_neg_slice_neg_append)

subsection \<open>spawn refuses a session id it already tracks\<close>

text \<open>
  Claim C7. When the manager's map already holds an entry for \<open>sid\<close>, \<^verbatim>\<open>spawn(sid)\<close>
  throws \<^verbatim>\<open>Error('Session already exists')\<close>, whatever the backend would have done: it
  returns no new manager, so no second process is created and the tracked record stays.
\<close>

theorem spawn_already_exists:
  "sessions m sid = Some a \<Longrightarrow>
     PtyManager_spawn e avail m sid = Inl (Error ''Session already exists'')"
  by (simp add: PtyManager_spawn_def)

theorem spawn_already_exists_witness:
  "sessions m_A ''A'' = Some 0 \<and>
   PtyManager_spawn calm True m_A ''A'' = Inl (Error ''Session already exists'')"
  using spawn_already_exists [of m_A "''A''" 0 calm True] by (simp add: m_A_def)

subsection \<open>resize from an unattached socket\<close>




subsection \<open>The replay buffer is bounded\<close>

lemma length_objs_pty_onData [simp]:
  "length (objs (ptyManager (pty_onData a data w))) = length (objs (ptyManager w))"
  by (simp add: ptyManager_pty_onData)

lemma buffer_pty_onData:
  "a < length (objs (ptyManager w)) \<Longrightarrow>
     outputBuffer (objs (ptyManager (pty_onData a data w)) ! a)
       = append_buffer (outputBuffer (objs (ptyManager w) ! a)) data"
  by (simp add: ptyManager_pty_onData)

lemma length_objs_data_events [simp]:
  "length (objs (ptyManager (run (data_events e a ds) w))) = length (objs (ptyManager w))"
  by (induction ds arbitrary: w) (simp_all add: data_events_def)

lemma buffer_data_events:
  "a < length (objs (ptyManager w)) \<Longrightarrow>
     outputBuffer (objs (ptyManager (run (data_events e a (d # ds)) w)) ! a)
       = append_buffer (outputBuffer (objs (ptyManager w) ! a)) (concat (d # ds))"
proof (induction ds arbitrary: w d)
  case Nil
  then show ?case by (simp add: data_events_def buffer_pty_onData)
next
  case (Cons d' ds)
  let ?w1 = "pty_onData a d w"
  from Cons.prems have a1: "a < length (objs (ptyManager ?w1))" by simp
  have "run (data_events e a (d # d' # ds)) w = run (data_events e a (d' # ds)) ?w1"
    by (simp add: data_events_def)
  with Cons.IH [OF a1, of d'] Cons.prems show ?case
    by (simp add: buffer_pty_onData append_buffer_append_buffer)
qed

text \<open>
  Claim C2. Take any session object, whatever its buffer holds, and let its process emit
  the data events \<open>d # ds\<close>, one or more. After the last of them the object's buffer is
  at most 10000 units long, and it is the last 10000 units of the old buffer followed by
  all the data (all of it when that is shorter): the oldest units are the ones dropped.
  Every prefix of a sequence of appends is such a sequence, so the bound holds after each
  append.
\<close>

theorem replay_buffer_bounded:
  assumes "a < length (objs (ptyManager w))"
  shows "length (outputBuffer (objs (ptyManager (run (data_events e a (d # ds)) w)) ! a)) \<le> 10000 \<and>
         outputBuffer (objs (ptyManager (run (data_events e a (d # ds)) w)) ! a)
           = slice_neg 10000 (outputBuffer (objs (ptyManager w) ! a) @ concat (d # ds))"
proof -
  have "outputBuffer (objs (ptyManager (run (data_events e a (d # ds)) w)) ! a)
       = append_buffer (outputBuffer (objs (ptyManager w) ! a)) (concat (d # ds))"
    using assms by (simp add: buffer_data_events)
  then show ?thesis
    using length_append_buffer [of "outputBuffer (objs (ptyManager w) ! a)" "concat (d # ds)"]
    by (simp add: append_buffer_slice MAX_BUFFER_SIZE_def)
qed

theorem replay_buffer_bounded_witness:
  "0 < length (objs (ptyManager (w_of m_A sock0))) \<and>
   outputBuffer (objs (ptyManager (run (data_events calm 0 [replicate 10000 CHR ''a'', ''bc''])
                                     (w_of m_A sock0))) ! 0)
     = replicate 9998 CHR ''a'' @ ''bc''"
  using replay_buffer_bounded [of 0 "w_of m_A sock0" calm "replicate 10000 CHR ''a''" "[''bc'']"]
  by (simp add: w_of_def m_A_def new_session_def slice_neg_def)

subsection \<open>Input is gated by the recorded role\<close>

text \<open>
  Claim C1. Let a socket be attached to session \<open>sid\<close>. If its recorded role is VIEWER
  (effective role OBSERVE), the only effect of a \<^verbatim>\<open>session:input\<close> is the error event
  \<^verbatim>\<open>Viewers cannot send input\<close> to that socket; the manager, and with it every
  terminal's log of writes, is unchanged. If its role is OWNER or OPERATOR (effective role
  DRIVE), the handler is the call \<^verbatim>\<open>ptyManager.write(sid, data)\<close> with the payload as
  received, and when the session is tracked and its terminal accepts the write, the
  terminal's log of writes grows by exactly that payload.
\<close>

theorem input_role_gate:
  assumes "io w c = Some socket" and "attached_to socket = Some sid"
  shows "(sessionRole socket = Some VIEWER \<longrightarrow>
            session_input e c data w = socket_emit c (ErrorEv ''Viewers cannot send input'') w \<and>
            ptyManager (session_input e c data w) = ptyManager w) \<and>
         (sessionRole socket = Some OWNER \<or> sessionRole socket = Some OPERATOR \<longrightarrow>
            session_input e c data w =
              (case PtyManager_write e sid data w of
                 Inl err \<Rightarrow> socket_emit c (ErrorEv ''Failed to send input'') w
               | Inr w' \<Rightarrow> w') \<and>
            (\<forall>a. sessions (ptyManager w) sid = Some a \<and> a < length (objs (ptyManager w)) \<and>
                 (mock (pty (objs (ptyManager w) ! a)) \<or> \<not> pty_write_throws e) \<longrightarrow>
                 written (pty (objs (ptyManager (session_input e c data w)) ! a))
                   = written (pty (objs (ptyManager w) ! a)) @ [data]))"
  using assms
  by (auto simp: session_input_def PtyManager_write_def IPty_write_def ptyManager_log_write
        ptyManager_pty_onData)

theorem input_role_gate_witness:
  "session_input calm 0 ''ls'' (w_of m_A (sock_A ''bob'' VIEWER))
     = socket_emit 0 (ErrorEv ''Viewers cannot send input'') (w_of m_A (sock_A ''bob'' VIEWER)) \<and>
   ptyManager (session_input calm 0 ''ls'' (w_of m_A (sock_A ''bob'' VIEWER))) = m_A \<and>
   written (pty (objs (ptyManager (session_input calm 0 ''ls'' (w_of m_A (sock_A ''alice'' OWNER)))) ! 0))
     = [''ls'']"
proof -
  let ?sv = "sock_A ''bob'' VIEWER" and ?so = "sock_A ''alice'' OWNER"
  let ?wv = "w_of m_A ?sv" and ?wo = "w_of m_A ?so"
  have v1: "io ?wv 0 = Some ?sv" and o1: "io ?wo 0 = Some ?so"
    by (simp_all add: w_of_def)
  have v2: "attached_to ?sv = Some ''A''" and o2: "attached_to ?so = Some ''A''"
    by (simp_all add: attached_to_def sock_A_def truthy_def)
  have v3: "sessionRole ?sv = Some VIEWER" and o3: "sessionRole ?so = Some OWNER"
    by (simp_all add: sock_A_def)
  have o4: "sessions (ptyManager ?wo) ''A'' = Some 0 \<and> 0 < length (objs (ptyManager ?wo)) \<and>
            (mock (pty (objs (ptyManager ?wo) ! 0)) \<or> \<not> pty_write_throws calm)"
    by (simp add: w_of_def m_A_def calm_def)
  from input_role_gate [OF v1 v2, of calm "''ls''"] v3
  have V: "session_input calm 0 ''ls'' ?wv = socket_emit 0 (ErrorEv ''Viewers cannot send input'') ?wv \<and>
           ptyManager (session_input calm 0 ''ls'' ?wv) = ptyManager ?wv"
    by blast
  from input_role_gate [OF o1 o2, of calm "''ls''"] o3 o4
  have "written (pty (objs (ptyManager (session_input calm 0 ''ls'' ?wo)) ! 0))
          = written (pty (objs (ptyManager ?wo) ! 0)) @ [''ls'']"
    by blast
  then have O: "written (pty (objs (ptyManager (session_input calm 0 ''ls'' ?wo)) ! 0)) = [''ls'']"
    by (simp add: w_of_def m_A_def new_session_def)
  from V O show ?thesis by (simp add: w_of_def)
qed

subsection \<open>Input that cannot be delivered\<close>

text \<open>\<^verbatim>\<open>PtyManager.write\<close> throws in two cases: the session is not tracked, or the
  terminal itself throws (a mock terminal never does).\<close>

lemma write_Inl_iff:
  "(\<exists>err. PtyManager_write e sid data w = Inl err) \<longleftrightarrow>
     sessions (ptyManager w) sid = None \<or>
     (\<exists>a. sessions (ptyManager w) sid = Some a \<and> \<not> mock (pty (objs (ptyManager w) ! a)) \<and>
          pty_write_throws e)"
  by (auto simp: PtyManager_write_def IPty_write_def split: option.splits)

text \<open>
  Claim C8. A \<^verbatim>\<open>session:input\<close> from a socket that is in no session has one effect: the
  error event \<^verbatim>\<open>Not in a session\<close> to that socket. When the socket is attached with a
  role other than VIEWER and the write fails (the session is not tracked, or the terminal
  throws), the one effect is the error event \<^verbatim>\<open>Failed to send input\<close> to the sender.
  Emitting to a socket appends to its outbox and changes nothing else: not its session id,
  role or rooms, no other socket, and not the manager. So nothing is written, and the
  sender stays attached.
\<close>

theorem input_errors_keep_attachment:
  assumes "io w c = Some socket"
  shows "(attached_to socket = None \<longrightarrow>
            session_input e c data w = socket_emit c (ErrorEv ''Not in a session'') w) \<and>
         (\<forall>sid. attached_to socket = Some sid \<and> sessionRole socket \<noteq> Some VIEWER \<and>
             (sessions (ptyManager w) sid = None \<or>
              (\<exists>a. sessions (ptyManager w) sid = Some a \<and>
                   \<not> mock (pty (objs (ptyManager w) ! a)) \<and> pty_write_throws e)) \<longrightarrow>
            session_input e c data w = socket_emit c (ErrorEv ''Failed to send input'') w) \<and>
         io (socket_emit c ev w) c = Some (socket\<lparr>outbox := outbox socket @ [ev]\<rparr>) \<and>
         (\<forall>k. k \<noteq> c \<longrightarrow> io (socket_emit c ev w) k = io w k) \<and>
         ptyManager (socket_emit c ev w) = ptyManager w"
  using assms
  by (auto simp: session_input_def PtyManager_write_def IPty_write_def io_socket_emit push_def
           split: option.splits)

theorem input_errors_keep_attachment_witness:
  "session_input calm 0 ''ls'' (w_of m_A sock0)
     = socket_emit 0 (ErrorEv ''Not in a session'') (w_of m_A sock0) \<and>
   session_input calm 0 ''ls'' (w_of m_empty (sock_A ''alice'' OWNER))
     = socket_emit 0 (ErrorEv ''Failed to send input'') (w_of m_empty (sock_A ''alice'' OWNER)) \<and>
   io (socket_emit 0 (ErrorEv ''Failed to send input'') (w_of m_empty (sock_A ''alice'' OWNER))) 0
     = Some \<lparr>userId = ''alice'', sessionId = Some ''A'', sessionRole = Some OWNER,
             rooms = {room ''A''}, outbox = [ErrorEv ''Failed to send input'']\<rparr>"
  using input_errors_keep_attachment [of "w_of m_A sock0" 0 sock0 calm "''ls''" "ErrorEv ''Not in a session''"]
    input_errors_keep_attachment [of "w_of m_empty (sock_A ''alice'' OWNER)" 0 "sock_A ''alice'' OWNER"
       calm "''ls''" "ErrorEv ''Failed to send input''"]
  by (simp add: w_of_def sock0_def sock_A_def m_empty_def attached_to_def truthy_def)

subsection \<open>A join whose spawn fails\<close>

text \<open>
  Claim C9. Let a member of session \<open>sid\<close> join it while no process is tracked for it,
  and let node-pty throw from \<^verbatim>\<open>spawn\<close>. The handler has by then recorded the session
  id and the role on the socket and put it into the session's room; it emits
  \<^verbatim>\<open>Failed to join session\<close> and undoes nothing. A later \<^verbatim>\<open>session:input\<close> is
  therefore handled as from an attached socket: a VIEWER is told that viewers cannot send
  input, any other role gets \<^verbatim>\<open>Failed to send input\<close> (the write finds no session);
  neither gets \<^verbatim>\<open>Not in a session\<close>.
\<close>

theorem join_spawn_failure_leaves_attached:
  assumes "io w c = Some socket"
    and "\<not> prisma_throws e"
    and "sessionMember (prisma w) (userId socket, sid) = Some role"
    and "sessions (ptyManager w) sid = None"
    and "ptyAvailable w" and "nodePtySpawn_throws e"
    and "sid \<noteq> []"
  shows "io (session_join e c sid w) c =
           Some (socket\<lparr>sessionId := Some sid, sessionRole := Some role,
                        rooms := insert (room sid) (rooms socket),
                        outbox := outbox socket @ [ErrorEv ''Failed to join session'']\<rparr>) \<and>
         ptyManager (session_join e c sid w) = ptyManager w \<and>
         session_input e' c data (session_join e c sid w) =
           socket_emit c (ErrorEv (if role = VIEWER then ''Viewers cannot send input''
                                   else ''Failed to send input''))
             (session_join e c sid w)"
proof -
  let ?w' = "session_join e c sid w"
  have buf: "getBuffer (ptyManager w) sid = []"
    using assms(4) by (simp add: getBuffer_def)
  have w': "?w' = socket_emit c (ErrorEv ''Failed to join session'')
                   (w\<lparr>io := (io w)(c \<mapsto> socket\<lparr>sessionId := Some sid, sessionRole := Some role,
                                     rooms := insert (room sid) (rooms socket)\<rparr>)\<rparr>)"
    using assms buf
    by (simp add: session_join_def getUserRole_def Let_def truthy_def exists_def PtyManager_spawn_def)
  have sock: "io ?w' c = Some (socket\<lparr>sessionId := Some sid, sessionRole := Some role,
                        rooms := insert (room sid) (rooms socket),
                        outbox := outbox socket @ [ErrorEv ''Failed to join session'']\<rparr>)"
    by (simp add: w' io_socket_emit push_def)
  have mgr: "ptyManager ?w' = ptyManager w"
    by (simp add: w')
  have "session_input e' c data ?w' =
           socket_emit c (ErrorEv (if role = VIEWER then ''Viewers cannot send input''
                                   else ''Failed to send input'')) ?w'"
    using assms(4,7)
    by (simp add: session_input_def sock mgr attached_to_def truthy_def PtyManager_write_def)
  with sock mgr show ?thesis by simp
qed

theorem join_spawn_failure_leaves_attached_witness:
  "io (session_join (calm\<lparr>nodePtySpawn_throws := True\<rparr>) 0 ''A'' (w_of m_empty sock0)) 0 =
      Some \<lparr>userId = ''alice'', sessionId = Some ''A'', sessionRole = Some OWNER,
            rooms = {room ''A''}, outbox = [ErrorEv ''Failed to join session'']\<rparr> \<and>
   session_input calm 0 ''ls'' (session_join (calm\<lparr>nodePtySpawn_throws := True\<rparr>) 0 ''A'' (w_of m_empty sock0))
     = socket_emit 0 (ErrorEv ''Failed to send input'')
         (session_join (calm\<lparr>nodePtySpawn_throws := True\<rparr>) 0 ''A'' (w_of m_empty sock0))"
  using join_spawn_failure_leaves_attached [of "w_of m_empty sock0" 0 sock0
           "calm\<lparr>nodePtySpawn_throws := True\<rparr>" "''A''" OWNER calm "''ls''"]
  by (simp add: w_of_def sock0_def m_empty_def db0_def calm_def)

subsection \<open>Attached sockets are in their session's room\<close>

text \<open>The set of sockets that receive a session's broadcasts is the session's room. In
  every world the server can reach, a socket that has recorded a session id is in the
  room of that session.\<close>

lemma attached_in_room_emit:
  "attached_in_room w \<Longrightarrow> attached_in_room (socket_emit c ev w)"
  by (auto simp: attached_in_room_def io_socket_emit push_def split: if_splits)

lemma attached_in_room_to_emit:
  "attached_in_room w \<Longrightarrow> attached_in_room (io_to_emit r ev w)"
  by (auto simp: attached_in_room_def io_io_to_emit push_def split: if_splits)

lemma attached_in_room_mgr:
  "attached_in_room w \<Longrightarrow> attached_in_room (w\<lparr>ptyManager := m\<rparr>)"
  by (simp add: attached_in_room_def)

lemma attached_in_room_upd:
  "attached_in_room w \<Longrightarrow> attached_in_room (w\<lparr>ptyManager := m, emitted := l\<rparr>)"
  by (simp add: attached_in_room_def)

lemma attached_in_room_pty_onData:
  "attached_in_room w \<Longrightarrow> attached_in_room (pty_onData a data w)"
  by (simp add: pty_onData_def Let_def on_output_def attached_in_room_to_emit attached_in_room_upd)

lemma attached_in_room_pty_onExit:
  "attached_in_room w \<Longrightarrow> attached_in_room (pty_onExit a code w)"
  by (simp add: pty_onExit_def Let_def on_exit_def attached_in_room_to_emit attached_in_room_mgr)

lemma attached_in_room_write:
  "attached_in_room w \<Longrightarrow> PtyManager_write e sid data w = Inr w' \<Longrightarrow> attached_in_room w'"
  by (auto simp: PtyManager_write_def IPty_write_def log_write_def Let_def
        attached_in_room_pty_onData attached_in_room_mgr split: option.splits if_splits)

lemma attached_in_room_attach:
  "attached_in_room w \<Longrightarrow> io w c = Some socket \<Longrightarrow>
   attached_in_room (w\<lparr>io := (io w)(c \<mapsto> socket\<lparr>sessionId := Some sid, sessionRole := r,
                                          rooms := insert (room sid) (rooms socket)\<rparr>)\<rparr>)"
  by (auto simp: attached_in_room_def)

lemma attached_in_room_join:
  "attached_in_room w \<Longrightarrow> attached_in_room (session_join e c sid w)"
  by (auto simp: session_join_def Let_def attached_in_room_emit attached_in_room_mgr
        attached_in_room_attach split: option.splits sum.splits)

lemma attached_in_room_step:
  assumes "attached_in_room w" and "step e ev w = Inr w'"
  shows "attached_in_room w'"
proof (cases ev)
  case (Connection c decoded)
  with assms show ?thesis
    by (auto simp: io_connection_def attached_in_room_def split: option.splits if_splits)
next
  case (Join c sid)
  with assms show ?thesis by (auto simp: attached_in_room_join)
next
  case (Input c data)
  with assms show ?thesis
    by (auto simp: session_input_def attached_in_room_emit attached_in_room_write
          split: option.splits sum.splits)
next
  case (Resize c payload)
  with assms show ?thesis
    by (auto simp: session_resize_def attached_in_room_mgr split: option.splits sum.splits)
next
  case (Leave c)
  with assms show ?thesis
    by (auto simp: session_leave_def attached_in_room_def split: option.splits if_splits)
next
  case (Disconnect c)
  with assms show ?thesis
    by (auto simp: disconnect_def attached_in_room_def split: if_splits)
next
  case (PtyData a data)
  with assms show ?thesis by (auto simp: attached_in_room_pty_onData)
next
  case (PtyExit a code)
  with assms show ?thesis by (auto simp: attached_in_room_pty_onExit)
qed

lemma attached_in_room_run: "attached_in_room w \<Longrightarrow> attached_in_room (run evs w)"
proof (induction evs arbitrary: w)
  case Nil
  then show ?case by simp
next
  case (Cons x evs)
  obtain e ev where x: "x = (e, ev)" by (cases x)
  show ?case
  proof (cases "step e ev w")
    case (Inl err)
    with Cons.prems x show ?thesis by simp
  next
    case (Inr w')
    with Cons.prems have "attached_in_room w'" by (simp add: attached_in_room_step)
    then have "attached_in_room (run evs w')" by (rule Cons.IH)
    with Inr x show ?thesis by simp
  qed
qed

lemma attached_in_room_reachable: "attached_in_room (run evs (init db avail))"
  by (rule attached_in_room_run) (simp add: init_def attached_in_room_def)

subsection \<open>Process exit\<close>

lemma io_pty_onExit:
  "a < length (objs (ptyManager w)) \<Longrightarrow>
   io (pty_onExit a code w) k =
     map_option (\<lambda>s. if room (id' (objs (ptyManager w) ! a)) \<in> rooms s
                      then push (SessionExit code) s else s) (io w k)"
  by (simp add: pty_onExit_def Let_def on_exit_def io_io_to_emit)

lemma prisma_pty_onExit [simp]: "prisma (pty_onExit a code w) = prisma w"
  by (simp add: pty_onExit_def Let_def on_exit_def io_to_emit_def)

lemma ptyAvailable_pty_onExit [simp]: "ptyAvailable (pty_onExit a code w) = ptyAvailable w"
  by (simp add: pty_onExit_def Let_def on_exit_def io_to_emit_def)

lemma join_spawns:
  assumes "io w c = Some socket"
    and "\<not> prisma_throws e"
    and "sessionMember (prisma w) (userId socket, sid) = Some role"
    and "sessions (ptyManager w) sid = None"
    and "\<not> (ptyAvailable w \<and> nodePtySpawn_throws e)"
  shows "session_join e c sid w =
           socket_emit c (SessionJoined sid role)
             (w\<lparr>io := (io w)(c \<mapsto> socket\<lparr>sessionId := Some sid, sessionRole := Some role,
                                          rooms := insert (room sid) (rooms socket)\<rparr>),
                ptyManager := (ptyManager w)\<lparr>objs := objs (ptyManager w) @ [new_session (ptyAvailable w) sid],
                                 sessions := (sessions (ptyManager w))(sid \<mapsto> length (objs (ptyManager w)))\<rparr>\<rparr>)"
  using assms
  by (auto simp: session_join_def getUserRole_def Let_def truthy_def exists_def getBuffer_def
        PtyManager_spawn_def)

lemma w_AB_sockets:
  "io w_AB 0 = Some \<lparr>userId = ''alice'', sessionId = Some ''A'', sessionRole = Some OWNER,
                      rooms = {room ''A''}, outbox = [SessionJoined ''A'' OWNER]\<rparr>"
  "io w_AB 1 = Some \<lparr>userId = ''bob'', sessionId = Some ''A'', sessionRole = Some VIEWER,
                      rooms = {room ''A''}, outbox = [SessionJoined ''A'' VIEWER]\<rparr>"
  by (simp_all add: w_AB_def init_def db0_def calm_def io_connection_def session_join_def
        getUserRole_def getBuffer_def exists_def PtyManager_spawn_def new_session_def
        socket_emit_def truthy_def push_def Let_def)

lemma w_AB_manager:
  "ptyManager w_AB = \<lparr>sessions = [''A'' \<mapsto> 0], objs = [new_session True ''A'']\<rparr>"
  "prisma w_AB = db0" "ptyAvailable w_AB"
  by (simp_all add: w_AB_def init_def db0_def calm_def io_connection_def session_join_def
        getUserRole_def getBuffer_def exists_def PtyManager_spawn_def
        socket_emit_def truthy_def push_def Let_def)

text \<open>
  Claim C6. Let the process of session \<open>sid\<close> exit with \<open>code\<close>. Every socket in the
  session's room gets exactly one more event, \<^verbatim>\<open>session:exit\<close> with that code, and no
  other socket gets anything; the manager's map has no entry for \<open>sid\<close> afterwards. If a
  member of the session then joins it (the role query answers and the backend does not
  refuse), the manager spawns: the store grows by one fresh session object, and the map
  sends \<open>sid\<close> to it.
\<close>

theorem exit_broadcast_then_fresh_spawn:
  assumes "a < length (objs (ptyManager w))" and "id' (objs (ptyManager w) ! a) = sid"
  shows "(\<forall>k. io (pty_onExit a code w) k =
              map_option (\<lambda>s. if room sid \<in> rooms s
                               then s\<lparr>outbox := outbox s @ [SessionExit code]\<rparr> else s) (io w k)) \<and>
         sessions (ptyManager (pty_onExit a code w)) sid = None \<and>
         (\<forall>c socket role. io (pty_onExit a code w) c = Some socket \<and> \<not> prisma_throws e \<and>
              sessionMember (prisma w) (userId socket, sid) = Some role \<and>
              \<not> (ptyAvailable w \<and> nodePtySpawn_throws e) \<longrightarrow>
              objs (ptyManager (session_join e c sid (pty_onExit a code w)))
                = objs (ptyManager w) @ [new_session (ptyAvailable w) sid] \<and>
              sessions (ptyManager (session_join e c sid (pty_onExit a code w))) sid
                = Some (length (objs (ptyManager w))))"
proof (intro conjI allI impI)
  fix k
  show "io (pty_onExit a code w) k =
          map_option (\<lambda>s. if room sid \<in> rooms s
                           then s\<lparr>outbox := outbox s @ [SessionExit code]\<rparr> else s) (io w k)"
    using assms by (simp add: io_pty_onExit push_def cong: if_cong)
next
  show gone: "sessions (ptyManager (pty_onExit a code w)) sid = None"
    using assms by (simp add: ptyManager_pty_onExit)
  fix c socket role
  assume h: "io (pty_onExit a code w) c = Some socket \<and> \<not> prisma_throws e \<and>
              sessionMember (prisma w) (userId socket, sid) = Some role \<and>
              \<not> (ptyAvailable w \<and> nodePtySpawn_throws e)"
  let ?w' = "pty_onExit a code w"
  have j: "session_join e c sid ?w' =
           socket_emit c (SessionJoined sid role)
             (?w'\<lparr>io := (io ?w')(c \<mapsto> socket\<lparr>sessionId := Some sid, sessionRole := Some role,
                                          rooms := insert (room sid) (rooms socket)\<rparr>),
                ptyManager := (ptyManager ?w')\<lparr>objs := objs (ptyManager ?w') @ [new_session (ptyAvailable ?w') sid],
                                 sessions := (sessions (ptyManager ?w'))(sid \<mapsto> length (objs (ptyManager ?w')))\<rparr>\<rparr>)"
    using h gone by (intro join_spawns) simp_all
  have o: "objs (ptyManager ?w') = objs (ptyManager w)"
    using assms by (simp add: ptyManager_pty_onExit)
  show "objs (ptyManager (session_join e c sid ?w')) = objs (ptyManager w) @ [new_session (ptyAvailable w) sid]"
    by (simp add: j o)
  show "sessions (ptyManager (session_join e c sid ?w')) sid = Some (length (objs (ptyManager w)))"
    by (simp add: j o)
qed

theorem exit_broadcast_then_fresh_spawn_witness:
  "map_option outbox (io (pty_onExit 0 1 w_AB) 0) = Some [SessionJoined ''A'' OWNER, SessionExit 1] \<and>
   map_option outbox (io (pty_onExit 0 1 w_AB) 1) = Some [SessionJoined ''A'' VIEWER, SessionExit 1] \<and>
   sessions (ptyManager (pty_onExit 0 1 w_AB)) ''A'' = None \<and>
   sessions (ptyManager (session_join calm 1 ''A'' (pty_onExit 0 1 w_AB))) ''A'' = Some 1"
proof -
  have a: "0 < length (objs (ptyManager w_AB))" and i: "id' (objs (ptyManager w_AB) ! 0) = ''A''"
    by (simp_all add: w_AB_manager new_session_def)
  note t = exit_broadcast_then_fresh_spawn [OF a i, of 1 calm]
  from t have io: "\<And>k. io (pty_onExit 0 1 w_AB) k =
              map_option (\<lambda>s. if room ''A'' \<in> rooms s
                               then s\<lparr>outbox := outbox s @ [SessionExit 1]\<rparr> else s) (io w_AB k)"
    by blast
  have s1: "io (pty_onExit 0 1 w_AB) 1 = Some \<lparr>userId = ''bob'', sessionId = Some ''A'', sessionRole = Some VIEWER,
                      rooms = {room ''A''}, outbox = [SessionJoined ''A'' VIEWER, SessionExit 1]\<rparr>"
    by (simp add: io w_AB_sockets del: One_nat_def)
  have j: "io (pty_onExit 0 1 w_AB) 1 = Some \<lparr>userId = ''bob'', sessionId = Some ''A'', sessionRole = Some VIEWER,
                      rooms = {room ''A''}, outbox = [SessionJoined ''A'' VIEWER, SessionExit 1]\<rparr> \<and>
           \<not> prisma_throws calm \<and>
           sessionMember (prisma w_AB) (userId \<lparr>userId = ''bob'', sessionId = Some ''A'', sessionRole = Some VIEWER,
                      rooms = {room ''A''}, outbox = [SessionJoined ''A'' VIEWER, SessionExit 1]\<rparr>, ''A'') = Some VIEWER \<and>
           \<not> (ptyAvailable w_AB \<and> nodePtySpawn_throws calm)"
    by (simp add: s1 w_AB_manager db0_def calm_def del: One_nat_def)
  from t j have "sessions (ptyManager (session_join calm 1 ''A'' (pty_onExit 0 1 w_AB))) ''A''
                = Some (length (objs (ptyManager w_AB)))"
    by blast
  moreover from t have "sessions (ptyManager (pty_onExit 0 1 w_AB)) ''A'' = None"
    by blast
  ultimately show ?thesis
    by (simp add: io w_AB_sockets w_AB_manager del: One_nat_def)
qed

subsection \<open>Evaluating the scenarios\<close>

lemmas run_defs = init_def db0_def calm_def io_connection_def session_join_def
        getUserRole_def getBuffer_def exists_def PtyManager_spawn_def new_session_def
        socket_emit_def truthy_def push_def Let_def pty_onData_def on_output_def io_to_emit_def
        append_buffer_def MAX_BUFFER_SIZE_def room_def

subsection \<open>Joining a second session\<close>

text \<open>
  Claim C3. The claim asks that a join to session B from a socket attached to session A
  first leaves A. The handler of \<^verbatim>\<open>session:join\<close> overwrites the socket's session id and
  role and adds the room of B; it never calls \<^verbatim>\<open>socket.leave\<close> for the room of A, as
  the handler of \<^verbatim>\<open>session:leave\<close> does. In the run below Alice's socket, attached to B,
  is in both rooms and receives the output \<open>x\<close> of session A; a \<^verbatim>\<open>session:leave\<close>
  afterwards takes it out of the room of B only.
\<close>

theorem join_switch_keeps_old_room:
  "map_option (\<lambda>s. (sessionId s, rooms s, outbox s)) (io w_switch 0)
     = Some (Some ''B'', {room ''A'', room ''B''},
             [SessionJoined ''A'' OWNER, SessionJoined ''B'' OPERATOR, SessionOutput ''x'']) \<and>
   map_option (\<lambda>s. (sessionId s, rooms s)) (io (session_leave 0 w_switch) 0)
     = Some (None, {room ''A''})"
  by (simp add: w_switch_def run_defs session_leave_def attached_to_def insert_commute)

subsection \<open>Role resolution\<close>

text \<open>
  Claim C4, where it fails. The claim gives an administrator who is not a member of the
  session the permission OBSERVE. The account root has the global role ADMIN and no
  membership of session A: its permission is NoAccess, its join is answered with
  \<^verbatim>\<open>Access denied\<close>, and its socket stays unattached and in no room.
\<close>

theorem admin_non_member_denied:
  "user db0 ''root'' = Some ADMIN \<and> sessionMember db0 (''root'', ''A'') = None \<and>
   resolveRole db0 ''A'' ''root'' = NoAccess \<and>
   io w_root 0 = Some \<lparr>userId = ''root'', sessionId = None, sessionRole = None, rooms = {},
                        outbox = [ErrorEv ''Access denied'']\<rparr>"
  by (simp add: w_root_def run_defs resolveRole_def effective_def)

text \<open>
  Claim C4, as the code has it. The permission depends on the membership row alone. With no
  row the permission is NoAccess, whatever the global role of the user: the one effect of
  a join is the error event \<^verbatim>\<open>Access denied\<close>. With a row, OWNER and OPERATOR give
  DRIVE and VIEWER gives OBSERVE; the join records the session id and the stored role on
  the socket, and input from it is refused exactly when the permission is OBSERVE, and is
  the manager's write otherwise.
\<close>

theorem role_resolution_by_membership:
  assumes "io w c = Some socket" and "\<not> prisma_throws e"
  shows "(sessionMember (prisma w) (userId socket, sid) = None \<longrightarrow>
            resolveRole (prisma w) sid (userId socket) = NoAccess \<and>
            session_join e c sid w = socket_emit c (ErrorEv ''Access denied'') w) \<and>
         (\<forall>role. sessionMember (prisma w) (userId socket, sid) = Some role \<longrightarrow>
            (role = OWNER \<or> role = OPERATOR \<longrightarrow> resolveRole (prisma w) sid (userId socket) = DRIVE) \<and>
            (role = VIEWER \<longrightarrow> resolveRole (prisma w) sid (userId socket) = OBSERVE) \<and>
            map_option sessionId (io (session_join e c sid w) c) = Some (Some sid) \<and>
            map_option sessionRole (io (session_join e c sid w) c) = Some (Some role) \<and>
            (sid \<noteq> [] \<longrightarrow>
               session_input e' c data (session_join e c sid w) =
                 (if resolveRole (prisma w) sid (userId socket) = OBSERVE
                  then socket_emit c (ErrorEv ''Viewers cannot send input'') (session_join e c sid w)
                  else (case PtyManager_write e' sid data (session_join e c sid w) of
                          Inl err \<Rightarrow> socket_emit c (ErrorEv ''Failed to send input'') (session_join e c sid w)
                        | Inr w' \<Rightarrow> w'))))"
proof (intro conjI allI impI)
  assume n: "sessionMember (prisma w) (userId socket, sid) = None"
  then show "resolveRole (prisma w) sid (userId socket) = NoAccess"
    by (simp add: resolveRole_def effective_def)
  from n assms show "session_join e c sid w = socket_emit c (ErrorEv ''Access denied'') w"
    by (simp add: session_join_def getUserRole_def)
next
  fix role assume r: "sessionMember (prisma w) (userId socket, sid) = Some role"
  { assume "role = OWNER \<or> role = OPERATOR"
    with r show "resolveRole (prisma w) sid (userId socket) = DRIVE"
      by (auto simp: resolveRole_def effective_def) }
  { assume "role = VIEWER"
    with r show "resolveRole (prisma w) sid (userId socket) = OBSERVE"
      by (simp add: resolveRole_def effective_def) }
  have "\<exists>ob. io (session_join e c sid w) c =
           Some (socket\<lparr>sessionId := Some sid, sessionRole := Some role,
                        rooms := insert (room sid) (rooms socket), outbox := ob\<rparr>)"
    using assms r
    by (auto simp: session_join_def getUserRole_def Let_def io_socket_emit push_def
          split: option.splits sum.splits)
  then obtain ob where s': "io (session_join e c sid w) c =
           Some (socket\<lparr>sessionId := Some sid, sessionRole := Some role,
                        rooms := insert (room sid) (rooms socket), outbox := ob\<rparr>)"
    by blast
  show "map_option sessionId (io (session_join e c sid w) c) = Some (Some sid)"
    by (simp add: s')
  show "map_option sessionRole (io (session_join e c sid w) c) = Some (Some role)"
    by (simp add: s')
  { assume "sid \<noteq> []"
    with r show "session_input e' c data (session_join e c sid w) =
                 (if resolveRole (prisma w) sid (userId socket) = OBSERVE
                  then socket_emit c (ErrorEv ''Viewers cannot send input'') (session_join e c sid w)
                  else (case PtyManager_write e' sid data (session_join e c sid w) of
                          Inl err \<Rightarrow> socket_emit c (ErrorEv ''Failed to send input'') (session_join e c sid w)
                        | Inr w' \<Rightarrow> w'))"
      by (simp add: session_input_def s' attached_to_def truthy_def resolveRole_def effective_def) }
qed

theorem role_resolution_by_membership_witness:
  "user db0 ''root'' = Some ADMIN \<and>
   resolveRole db0 ''A'' ''root'' = NoAccess \<and>
   session_join calm 0 ''A'' (w_of m_A sock_root)
     = socket_emit 0 (ErrorEv ''Access denied'') (w_of m_A sock_root) \<and>
   resolveRole db0 ''A'' ''alice'' = DRIVE \<and>
   resolveRole db0 ''A'' ''bob'' = OBSERVE \<and>
   map_option sessionRole (io (session_join calm 0 ''A'' (w_of m_A sock_bob)) 0) = Some (Some VIEWER) \<and>
   session_input calm 0 ''ls'' (session_join calm 0 ''A'' (w_of m_A sock_bob))
     = socket_emit 0 (ErrorEv ''Viewers cannot send input'') (session_join calm 0 ''A'' (w_of m_A sock_bob))"
proof -
  have c: "\<not> prisma_throws calm" by (simp add: calm_def)
  have r1: "io (w_of m_A sock_root) 0 = Some sock_root"
    and a1: "io (w_of m_A sock0) 0 = Some sock0"
    and b1: "io (w_of m_A sock_bob) 0 = Some sock_bob"
    by (simp_all add: w_of_def)
  have r2: "sessionMember (prisma (w_of m_A sock_root)) (userId sock_root, ''A'') = None"
    and a2: "sessionMember (prisma (w_of m_A sock0)) (userId sock0, ''A'') = Some OWNER"
    and b2: "sessionMember (prisma (w_of m_A sock_bob)) (userId sock_bob, ''A'') = Some VIEWER"
    by (simp_all add: w_of_def db0_def sock_root_def sock0_def sock_bob_def)
  have p: "prisma (w_of m_A sock_root) = db0" "prisma (w_of m_A sock0) = db0"
    "prisma (w_of m_A sock_bob) = db0" "userId sock_root = ''root''" "userId sock0 = ''alice''"
    "userId sock_bob = ''bob''"
    by (simp_all add: w_of_def sock_root_def sock0_def sock_bob_def)
  have ne: "''A'' \<noteq> []" by simp
  from role_resolution_by_membership [OF r1 c, of "''A''" calm "''ls''"] r2
  have R: "resolveRole db0 ''A'' ''root'' = NoAccess \<and>
           session_join calm 0 ''A'' (w_of m_A sock_root)
             = socket_emit 0 (ErrorEv ''Access denied'') (w_of m_A sock_root)"
    by (simp add: p)
  from role_resolution_by_membership [OF a1 c, of "''A''" calm "''ls''"] a2
  have A: "resolveRole db0 ''A'' ''alice'' = DRIVE"
    by (simp add: p)
  from role_resolution_by_membership [OF b1 c, of "''A''" calm "''ls''"] b2 ne
  have B: "resolveRole db0 ''A'' ''bob'' = OBSERVE \<and>
           map_option sessionRole (io (session_join calm 0 ''A'' (w_of m_A sock_bob)) 0) = Some (Some VIEWER) \<and>
           session_input calm 0 ''ls'' (session_join calm 0 ''A'' (w_of m_A sock_bob))
             = socket_emit 0 (ErrorEv ''Viewers cannot send input'') (session_join calm 0 ''A'' (w_of m_A sock_bob))"
    by (simp add: p)
  have "user db0 ''root'' = Some ADMIN" by (simp add: db0_def)
  with R A B show ?thesis by blast
qed

subsection \<open>Catch-up and live output\<close>

lemma io_pty_onData:
  "a < length (objs (ptyManager w)) \<Longrightarrow>
   io (pty_onData a d w) k =
     map_option (\<lambda>s. if room (id' (objs (ptyManager w) ! a)) \<in> rooms s
                      then push (SessionOutput d) s else s) (io w k)"
  by (simp add: pty_onData_def Let_def on_output_def io_io_to_emit)

lemma id_pty_onData:
  "a < length (objs (ptyManager w)) \<Longrightarrow>
   id' (objs (ptyManager (pty_onData a d w)) ! a) = id' (objs (ptyManager w) ! a)"
  by (simp add: ptyManager_pty_onData)

lemma io_data_events:
  "a < length (objs (ptyManager w)) \<Longrightarrow> io w c = Some s \<Longrightarrow>
   room (id' (objs (ptyManager w) ! a)) \<in> rooms s \<Longrightarrow>
   io (run (data_events e a ds) w) c = Some (s\<lparr>outbox := outbox s @ map SessionOutput ds\<rparr>)"
proof (induction ds arbitrary: w s)
  case Nil
  then show ?case by (simp add: data_events_def)
next
  case (Cons d ds)
  let ?w1 = "pty_onData a d w"
  have 1: "a < length (objs (ptyManager ?w1))" using Cons.prems by simp
  have 2: "io ?w1 c = Some (push (SessionOutput d) s)"
    using Cons.prems by (simp add: io_pty_onData)
  have 3: "room (id' (objs (ptyManager ?w1) ! a)) \<in> rooms (push (SessionOutput d) s)"
    using Cons.prems by (simp add: id_pty_onData push_def)
  have "run (data_events e a (d # ds)) w = run (data_events e a ds) ?w1"
    by (simp add: data_events_def)
  with Cons.IH [OF 1 2 3] show ?case by (simp add: push_def)
qed


lemma session_join_member:
  assumes "io w c = Some socket" and "\<not> prisma_throws e"
    and "sessionMember (prisma w) (userId socket, sid) = Some role"
    and "sessions (ptyManager w) sid \<noteq> None \<or> \<not> (ptyAvailable w \<and> nodePtySpawn_throws e)"
  shows "io (session_join e c sid w) c =
           Some (socket\<lparr>sessionId := Some sid, sessionRole := Some role,
                        rooms := insert (room sid) (rooms socket),
                        outbox := outbox socket @
                          (if getBuffer (ptyManager w) sid = [] then []
                           else [SessionOutput (getBuffer (ptyManager w) sid)]) @
                          [SessionJoined sid role]\<rparr>)"
    and "ptyManager (session_join e c sid w) =
           (case sessions (ptyManager w) sid of
              Some a \<Rightarrow> ptyManager w
            | None \<Rightarrow> (ptyManager w)\<lparr>objs := objs (ptyManager w) @ [new_session (ptyAvailable w) sid],
                         sessions := (sessions (ptyManager w))(sid \<mapsto> length (objs (ptyManager w)))\<rparr>)"
  using assms
  by (auto simp: session_join_def getUserRole_def Let_def truthy_def exists_def getBuffer_def
        PtyManager_spawn_def io_socket_emit push_def split: option.splits)

text \<open>
  Claim C5, where it fails. The claim promises an empty catch-up event when the session has
  produced no output. The handler sends the buffer only \<^verbatim>\<open>if (buffer)\<close>, and the empty
  string is falsy: Alice, first to join session A, receives the join confirmation and no
  output event.
\<close>

theorem first_join_has_no_catch_up:
  "map_option outbox (io w_first 0) = Some [SessionJoined ''A'' OWNER]"
  by (simp add: w_first_def run_defs)

text \<open>What one event does to a socket that is in the room of session \<open>sid\<close> and in no
  other room: the manager's log grows by some entries, and the socket is sent the data of
  exactly those of them that belong to \<open>sid\<close>.\<close>

lemma room_eq_iff [simp]: "room x = room y \<longleftrightarrow> x = y"
  by (simp add: room_def)

lemma outputs_of_append [simp]: "outputs_of (xs @ ys) = outputs_of xs @ outputs_of ys"
  by (simp add: outputs_of_def)

lemma outputs_of_single [simp]: "outputs_of [ev] = output_data ev"
  by (simp add: outputs_of_def)

lemma produced_append [simp]: "produced sid (xs @ ys) = produced sid xs @ produced sid ys"
  by (simp add: produced_def)

lemma produced_Nil [simp]: "produced sid [] = []"
  by (simp add: produced_def)

lemma emitted_socket_emit [simp]: "emitted (socket_emit k ev w) = emitted w"
  by (simp add: socket_emit_def)

lemma emitted_io_to_emit [simp]: "emitted (io_to_emit r ev w) = emitted w"
  by (simp add: io_to_emit_def)

lemma view_socket_emit:
  "view c (socket_emit k ev w) =
     (if k = c then map_option (\<lambda>(rs, os). (rs, os @ output_data ev)) (view c w) else view c w)"
  by (cases "io w c") (simp_all add: view_def io_socket_emit push_def)

lemma view_io_to_emit:
  "view c (io_to_emit r ev w) =
     map_option (\<lambda>(rs, os). (rs, if r \<in> rs then os @ output_data ev else os)) (view c w)"
  by (cases "io w c") (simp_all add: view_def io_io_to_emit push_def)

lemma view_upd [simp]:
  "view c (w\<lparr>ptyManager := m\<rparr>) = view c w"
  "view c (w\<lparr>ptyManager := m, emitted := l\<rparr>) = view c w"
  by (simp_all add: view_def)

lemma view_other:
  "k \<noteq> c \<Longrightarrow> view c (w\<lparr>io := (io w)(k := x)\<rparr>) = view c w"
  by (simp add: view_def)

lemma pty_onData_view:
  assumes "view c w = Some ({room sid}, os)"
  shows "\<exists>new. emitted (pty_onData a d w) = emitted w @ new \<and>
               view c (pty_onData a d w) = Some ({room sid}, os @ produced sid new)"
proof (cases "a < length (objs (ptyManager w))")
  case False
  with assms show ?thesis by (simp add: pty_onData_def)
next
  case True
  let ?i = "id' (objs (ptyManager w) ! a)"
  from True have e: "emitted (pty_onData a d w) = emitted w @ [(?i, d)]"
    by (simp add: pty_onData_def Let_def on_output_def)
  from True assms have v: "view c (pty_onData a d w) = Some ({room sid}, os @ produced sid [(?i, d)])"
    by (simp add: pty_onData_def Let_def on_output_def view_io_to_emit produced_def)
  from e v show ?thesis by blast
qed

lemma log_write_view [simp]:
  "view c (log_write a d w) = view c w" "emitted (log_write a d w) = emitted w"
  by (simp_all add: log_write_def Let_def)

lemma write_view:
  assumes "view c w = Some ({room sid}, os)" and "PtyManager_write e k d w = Inr w'"
  shows "\<exists>new. emitted w' = emitted w @ new \<and> view c w' = Some ({room sid}, os @ produced sid new)"
proof -
  from assms(2) obtain a where
    w': "w' = pty_onData a d (log_write a d w) \<or> w' = log_write a d w"
    by (auto simp: PtyManager_write_def IPty_write_def split: option.splits if_splits)
  from assms(1) have "view c (log_write a d w) = Some ({room sid}, os)" by simp
  from pty_onData_view [OF this, of a d] w' assms(1) show ?thesis
    by auto
qed

lemma input_view:
  assumes "view c w = Some ({room sid}, os)"
  shows "\<exists>new. emitted (session_input e k d w) = emitted w @ new \<and>
               view c (session_input e k d w) = Some ({room sid}, os @ produced sid new)"
proof (cases "\<exists>w'. session_input e k d w = w' \<and> (\<exists>s. PtyManager_write e s d w = Inr w')")
  case True
  then obtain s where "PtyManager_write e s d w = Inr (session_input e k d w)" by blast
  from write_view [OF assms this] show ?thesis .
next
  case False
  then have "\<exists>msg. session_input e k d w = w \<or> session_input e k d w = socket_emit k (ErrorEv msg) w"
    by (auto simp: session_input_def split: option.splits sum.splits if_splits)
  then obtain msg where "session_input e k d w = w \<or> session_input e k d w = socket_emit k (ErrorEv msg) w"
    by blast
  with assms show ?thesis
    by (auto simp: view_socket_emit)
qed

lemma io_socket_emit_other: "k \<noteq> c \<Longrightarrow> io (socket_emit k ev w) c = io w c"
  by (simp add: socket_emit_def)

lemma io_session_join_other: "k \<noteq> c \<Longrightarrow> io (session_join e k s w) c = io w c"
  by (auto simp: session_join_def Let_def io_socket_emit_other split: option.splits sum.splits)

lemma emitted_session_join: "emitted (session_join e k s w) = emitted w"
  by (auto simp: session_join_def Let_def split: option.splits sum.splits)

lemma join_view:
  assumes "k \<noteq> c"
  shows "emitted (session_join e k s w) = emitted w \<and> view c (session_join e k s w) = view c w"
  using assms by (simp add: emitted_session_join view_def io_session_join_other)

lemma resize_view:
  "session_resize e k p w = Inr w' \<Longrightarrow> emitted w' = emitted w \<and> view c w' = view c w"
  by (auto simp: session_resize_def split: option.splits sum.splits)

lemma view_io_to_emit_quiet:
  "output_data ev = [] \<Longrightarrow> view c (io_to_emit r ev w) = view c w"
  by (cases "view c w") (auto simp: view_io_to_emit)

lemma exit_view:
  "emitted (pty_onExit a code w) = emitted w \<and> view c (pty_onExit a code w) = view c w"
  by (simp add: pty_onExit_def Let_def on_exit_def view_io_to_emit_quiet)

lemma connection_view:
  "view c w = Some x \<Longrightarrow>
     emitted (io_connection k decoded w) = emitted w \<and> view c (io_connection k decoded w) = view c w"
  by (cases "k = c") (auto simp: io_connection_def view_def split: option.splits)

lemma leave_view:
  "k \<noteq> c \<Longrightarrow> emitted (session_leave k w) = emitted w \<and> view c (session_leave k w) = view c w"
  by (simp add: session_leave_def view_def split: option.splits)

lemma disconnect_view:
  "k \<noteq> c \<Longrightarrow> emitted (disconnect k w) = emitted w \<and> view c (disconnect k w) = view c w"
  by (simp add: disconnect_def view_def)

lemma quiet_view:
  "view c w = Some (rs, os) \<Longrightarrow> emitted w' = emitted w \<and> view c w' = view c w \<Longrightarrow>
     \<exists>new. emitted w' = emitted w @ new \<and> view c w' = Some (rs, os @ produced sid new)"
  by (rule exI [of _ "[]"]) simp

lemma step_view:
  assumes v: "view c w = Some ({room sid}, os)" and st: "stays c ev" and s: "step e ev w = Inr w'"
  shows "\<exists>new. emitted w' = emitted w @ new \<and> view c w' = Some ({room sid}, os @ produced sid new)"
proof (cases ev)
  case (Connection k decoded)
  with s have w': "w' = io_connection k decoded w" by simp
  show ?thesis unfolding w' using v connection_view [OF v] by (rule quiet_view)
next
  case (Join k x)
  with s st have w': "w' = session_join e k x w" and k: "k \<noteq> c" by simp_all
  show ?thesis unfolding w' using v join_view [OF k] by (rule quiet_view)
next
  case (Input k d)
  with s have w': "w' = session_input e k d w" by simp
  show ?thesis unfolding w' using v by (rule input_view)
next
  case (Resize k p)
  with s have "session_resize e k p w = Inr w'" by simp
  then have "emitted w' = emitted w \<and> view c w' = view c w" by (rule resize_view)
  with v show ?thesis by (rule quiet_view)
next
  case (Leave k)
  with s st have w': "w' = session_leave k w" and k: "k \<noteq> c" by simp_all
  show ?thesis unfolding w' using v leave_view [OF k] by (rule quiet_view)
next
  case (Disconnect k)
  with s st have w': "w' = disconnect k w" and k: "k \<noteq> c" by simp_all
  show ?thesis unfolding w' using v disconnect_view [OF k] by (rule quiet_view)
next
  case (PtyData a d)
  with s have w': "w' = pty_onData a d w" by simp
  show ?thesis unfolding w' using v by (rule pty_onData_view)
next
  case (PtyExit a code)
  with s have w': "w' = pty_onExit a code w" by simp
  show ?thesis unfolding w' using v exit_view by (rule quiet_view)
qed

lemma run_view:
  assumes "view c w = Some ({room sid}, os)" and "\<forall>x \<in> set evs. stays c (snd x)"
  shows "\<exists>new. emitted (run evs w) = emitted w @ new \<and>
               view c (run evs w) = Some ({room sid}, os @ produced sid new)"
  using assms
proof (induction evs arbitrary: w os)
  case Nil
  show ?case using Nil.prems(1) by (intro exI [of _ "[]"]) simp
next
  case (Cons x evs)
  obtain e ev where x: "x = (e, ev)" by (cases x)
  show ?case
  proof (cases "step e ev w")
    case (Inl err)
    with x have "run (x # evs) w = w" by simp
    with Cons.prems(1) show ?thesis by (intro exI [of _ "[]"]) simp
  next
    case (Inr w1)
    with x have r: "run (x # evs) w = run evs w1" by simp
    from Cons.prems(2) x have "stays c ev" by simp
    from step_view [OF Cons.prems(1) this Inr]
    obtain n1 where n1: "emitted w1 = emitted w @ n1"
      "view c w1 = Some ({room sid}, os @ produced sid n1)" by blast
    from Cons.prems(2) have "\<forall>x \<in> set evs. stays c (snd x)" by simp
    from Cons.IH [OF n1(2) this]
    obtain n2 where n2: "emitted (run evs w1) = emitted w1 @ n2"
      "view c (run evs w1) = Some ({room sid}, (os @ produced sid n1) @ produced sid n2)" by blast
    have "emitted (run (x # evs) w) = emitted w @ (n1 @ n2)"
      unfolding r by (simp add: n1(1) n2(1))
    moreover have "view c (run (x # evs) w) = Some ({room sid}, os @ produced sid (n1 @ n2))"
      unfolding r by (simp add: n2(2))
    ultimately show ?thesis by blast
  qed
qed

text \<open>
  Claim C5, as the code has it. Let a member join session \<open>sid\<close> from a socket that is
  in no other session's room, and let the join succeed (the session is tracked, or the
  spawn goes through). The join leaves the replay buffer as it was. If the buffer is not
  empty the socket receives it, whole, as one output event before the join confirmation;
  if it is empty the socket receives no output event. After that, let the server handle
  any events at all (output and exit of any process, and joins, input, resizes, leaves and
  disconnects of any socket) except a join, a leave or the disconnect of this socket: the
  output events the socket has then received since the join are exactly the output events
  the manager has emitted for \<open>sid\<close> since the join, each once and in the order of
  emission. Output of other sessions does not reach it.
\<close>

theorem join_catch_up_then_live_output:
  assumes "io w c = Some socket" and "\<not> prisma_throws e"
    and "sessionMember (prisma w) (userId socket, sid) = Some role"
    and "sessions (ptyManager w) sid \<noteq> None \<or> \<not> (ptyAvailable w \<and> nodePtySpawn_throws e)"
    and "rooms socket \<subseteq> {room sid}"
  shows "map_option outbox (io (session_join e c sid w) c) =
           Some (outbox socket @
                 (if getBuffer (ptyManager w) sid = [] then []
                  else [SessionOutput (getBuffer (ptyManager w) sid)]) @
                 [SessionJoined sid role]) \<and>
         getBuffer (ptyManager (session_join e c sid w)) sid = getBuffer (ptyManager w) sid \<and>
         (\<forall>evs. (\<forall>x \<in> set evs. stays c (snd x)) \<longrightarrow>
            map_option (\<lambda>s. outputs_of (outbox s)) (io (run evs (session_join e c sid w)) c) =
              Some (outputs_of (outbox socket) @
                    (if getBuffer (ptyManager w) sid = [] then [] else [getBuffer (ptyManager w) sid]) @
                    produced sid (drop (length (emitted w)) (emitted (run evs (session_join e c sid w))))))"
proof (intro conjI allI impI)
  let ?w' = "session_join e c sid w"
  let ?b = "getBuffer (ptyManager w) sid"
  note j = session_join_member [OF assms(1-4)]
  show "map_option outbox (io ?w' c) =
           Some (outbox socket @ (if ?b = [] then [] else [SessionOutput ?b]) @ [SessionJoined sid role])"
    by (simp add: j(1))
  show "getBuffer (ptyManager ?w') sid = ?b"
    by (cases "sessions (ptyManager w) sid") (simp_all add: j(2) getBuffer_def new_session_def)
  fix evs :: "(env \<times> event) list"
  assume st: "\<forall>x \<in> set evs. stays c (snd x)"
  from assms(5) have rs: "insert (room sid) (rooms socket) = {room sid}" by auto
  have v: "view c ?w' = Some ({room sid}, outputs_of (outbox socket) @ (if ?b = [] then [] else [?b]))"
    by (simp add: view_def j(1) rs outputs_of_def)
  have em: "emitted ?w' = emitted w" by (rule emitted_session_join)
  from run_view [OF v st] obtain new where
    n: "emitted (run evs ?w') = emitted w @ new"
       "view c (run evs ?w') =
          Some ({room sid}, (outputs_of (outbox socket) @ (if ?b = [] then [] else [?b])) @ produced sid new)"
    unfolding em by blast
  have "map_option (\<lambda>s. outputs_of (outbox s)) (io (run evs ?w') c) = map_option snd (view c (run evs ?w'))"
    by (simp add: view_def option.map_comp comp_def)
  also have "\<dots> = Some ((outputs_of (outbox socket) @ (if ?b = [] then [] else [?b])) @ produced sid new)"
    by (simp add: n(2))
  finally show "map_option (\<lambda>s. outputs_of (outbox s)) (io (run evs ?w') c) =
              Some (outputs_of (outbox socket) @ (if ?b = [] then [] else [?b]) @
                    produced sid (drop (length (emitted w)) (emitted (run evs ?w'))))"
    by (simp add: n(1))
qed

theorem join_catch_up_then_live_output_witness:
  "map_option outbox (io (session_join calm 1 ''A'' w_hello) 1)
     = Some [SessionOutput ''hello'', SessionJoined ''A'' VIEWER] \<and>
   map_option (\<lambda>s. outputs_of (outbox s))
     (io (run [(calm, PtyData 0 ''!''), (calm, Join 0 ''B''), (calm, PtyData 1 ''zzz''),
               (calm, PtyData 0 ''?'')] (session_join calm 1 ''A'' w_hello)) 1)
     = Some [''hello'', ''!'', ''?'']"
proof -
  let ?evs = "[(calm, PtyData 0 ''!''), (calm, Join 0 ''B''), (calm, PtyData 1 ''zzz''),
               (calm, PtyData 0 ''?'')]"
  have h1: "io w_hello 1 = Some sock_bob"
    by (simp add: w_hello_def sock_bob_def run_defs)
  have h2: "\<not> prisma_throws calm" by (simp add: calm_def)
  have h3: "sessionMember (prisma w_hello) (userId sock_bob, ''A'') = Some VIEWER"
    by (simp add: w_hello_def sock_bob_def run_defs)
  have h4: "sessions (ptyManager w_hello) ''A'' \<noteq> None \<or>
                 \<not> (ptyAvailable w_hello \<and> nodePtySpawn_throws calm)"
    by (simp add: w_hello_def run_defs)
  have h5: "rooms sock_bob \<subseteq> {room ''A''}" by (simp add: sock_bob_def)
  have h6: "\<forall>x \<in> set ?evs. stays 1 (snd x)" by simp
  have b: "getBuffer (ptyManager w_hello) ''A'' = ''hello''"
    by (simp add: w_hello_def run_defs)
  have l: "emitted w_hello = [(''A'', ''hello'')]"
    by (simp add: w_hello_def run_defs)
  have l': "emitted (run ?evs (session_join calm 1 ''A'' w_hello))
              = [(''A'', ''hello''), (''A'', ''!''), (''B'', ''zzz''), (''A'', ''?'')]"
    by (simp add: w_hello_def run_defs)
  note t = join_catch_up_then_live_output [OF h1 h2 h3 h4 h5]
  from t have "map_option outbox (io (session_join calm 1 ''A'' w_hello) 1) =
           Some (outbox sock_bob @
                 (if getBuffer (ptyManager w_hello) ''A'' = [] then []
                  else [SessionOutput (getBuffer (ptyManager w_hello) ''A'')]) @
                 [SessionJoined ''A'' VIEWER])"
    by blast
  then have A: "map_option outbox (io (session_join calm 1 ''A'' w_hello) 1)
     = Some [SessionOutput ''hello'', SessionJoined ''A'' VIEWER]"
    by (simp add: b sock_bob_def)
  from t h6 have "map_option (\<lambda>s. outputs_of (outbox s)) (io (run ?evs (session_join calm 1 ''A'' w_hello)) 1) =
              Some (outputs_of (outbox sock_bob) @
                    (if getBuffer (ptyManager w_hello) ''A'' = [] then [] else [getBuffer (ptyManager w_hello) ''A'']) @
                    produced ''A'' (drop (length (emitted w_hello)) (emitted (run ?evs (session_join calm 1 ''A'' w_hello)))))"
    by blast
  then have "map_option (\<lambda>s. outputs_of (outbox s)) (io (run ?evs (session_join calm 1 ''A'' w_hello)) 1) =
              Some (outputs_of (outbox sock_bob) @
                    (if ''hello'' = [] then [] else [''hello'']) @
                    produced ''A'' (drop (length [(''A'', ''hello'')])
                       [(''A'', ''hello''), (''A'', ''!''), (''B'', ''zzz''), (''A'', ''?'')]))"
    by (simp only: b l l')
  then have B: "map_option (\<lambda>s. outputs_of (outbox s)) (io (run ?evs (session_join calm 1 ''A'' w_hello)) 1)
     = Some [''hello'', ''!'', ''?'']"
    by (simp add: sock_bob_def produced_def outputs_of_def)
  from A B show ?thesis by blast
qed

end
